theory Spec2Isabelle
  imports Main "HOL-Library.Word"
begin

section \<open>The battery usermod (usermods/Battery/usermod_v2_Battery.h)\<close>

text \<open>
  A shallow embedding of class \<open>UsermodBattery\<close>. Machine integers are words:
  \<open>int8_t\<close> fields are \<open>8 word\<close> read through \<open>sint\<close>, \<open>unsigned long\<close>
  (32 bits on ESP8266 and ESP32) is \<open>32 word\<close>, WLED's \<open>byte\<close> is \<open>8 word\<close> read
  through \<open>unat\<close>. The usual arithmetic conversions of C++ are written out: an
  \<open>int8_t\<close> operand is promoted to \<open>int\<close> (\<open>sint\<close>), the arithmetic happens on
  \<open>int\<close>, and storing the result into an \<open>int8_t\<close> or adding it to an
  \<open>unsigned long\<close> reduces it modulo \<open>2 ^ 8\<close> or \<open>2 ^ 32\<close> (\<open>word_of_int\<close>), as
  gcc does on both targets.
\<close>

type_synonym int8 = "8 word"
type_synonym byte = "8 word"
type_synonym ulong = "32 word"

subsection \<open>Data\<close>

text \<open>
  The fields of \<open>UsermodBattery\<close>, in declaration order (lines 21-46). The object
  behind \<open>bat\<close> is declared in battery.h, which is not part of the sources at hand;
  of it the usermod reads and writes two fields only.

  Modelled from the spec: class \<open>Battery\<close> (battery.h, with lipo.h, lion.h and
  unkown.h). \<open>setVoltage\<close> stores the voltage, \<open>calculateAndSetLevel\<close> stores the
  percentage that the chemistry's curve gives for a voltage, \<open>getVoltage\<close> and
  \<open>getLevel\<close> read them back. The voltage is a C++ \<open>float\<close>: its type is left
  open as \<open>'v\<close>. \<open>bat_level\<close> is the numeric value of \<open>bat->getLevel()\<close>; every
  comparison the usermod makes with it is a comparison of numeric values.
\<close>

record 'v UsermodBattery =
  batteryPin :: int8
  bat_voltage :: 'v
  bat_level :: int
  readingInterval :: ulong
  nextReadTime :: ulong
  lastReadTime :: ulong
  autoOffEnabled :: bool
  autoOffThreshold :: int8
  lowPowerIndicatorEnabled :: bool
  lowPowerIndicatorPreset :: int8
  lowPowerIndicatorThreshold :: int8
  lowPowerIndicatorReactivationThreshold :: int8
  lowPowerIndicatorDuration :: int8
  lowPowerIndicationDone :: bool
  lowPowerActivationTime :: ulong
  lastPreset :: int8
  initDone :: bool
  initializing :: bool

subsection \<open>Getters and setters (lines 500-641)\<close>

text \<open>Lines 508-511: \<open>readingInterval = max((unsigned long)3000, newReadingInterval)\<close>.\<close>

definition setReadingInterval :: "ulong \<Rightarrow> 'v UsermodBattery \<Rightarrow> 'v UsermodBattery" where
  "setReadingInterval newReadingInterval s =
     s\<lparr>readingInterval := max 3000 newReadingInterval\<rparr>"

definition setAutoOffEnabled :: "bool \<Rightarrow> 'v UsermodBattery \<Rightarrow> 'v UsermodBattery" where
  "setAutoOffEnabled enabled s = s\<lparr>autoOffEnabled := enabled\<rparr>"

text \<open>
  Lines 557-562. The first assignment clamps into 0..100. The second one computes
  \<open>min(lowPowerIndicatorThreshold-1, (int)autoOffThreshold)\<close> on \<open>int\<close> and stores it
  back into the \<open>int8_t\<close> field.
\<close>

definition setAutoOffThreshold :: "int8 \<Rightarrow> 'v UsermodBattery \<Rightarrow> 'v UsermodBattery" where
  "setAutoOffThreshold threshold s =
     (let s1 = s\<lparr>autoOffThreshold := word_of_int (min 100 (max 0 (sint threshold)))\<rparr>
      in s1\<lparr>autoOffThreshold :=
           (if lowPowerIndicatorEnabled s1
            then word_of_int (min (sint (lowPowerIndicatorThreshold s1) - 1)
                                  (sint (autoOffThreshold s1)))
            else autoOffThreshold s1)\<rparr>)"

definition setLowPowerIndicatorEnabled :: "bool \<Rightarrow> 'v UsermodBattery \<Rightarrow> 'v UsermodBattery" where
  "setLowPowerIndicatorEnabled enabled s = s\<lparr>lowPowerIndicatorEnabled := enabled\<rparr>"

definition setLowPowerIndicatorPreset :: "int8 \<Rightarrow> 'v UsermodBattery \<Rightarrow> 'v UsermodBattery" where
  "setLowPowerIndicatorPreset presetId s = s\<lparr>lowPowerIndicatorPreset := presetId\<rparr>"

text \<open>
  Lines 611-616. Both branches of the conditional are \<open>int\<close>; the result is stored
  back into the \<open>int8_t\<close> field. No other field is written.
\<close>

definition setLowPowerIndicatorThreshold :: "int8 \<Rightarrow> 'v UsermodBattery \<Rightarrow> 'v UsermodBattery" where
  "setLowPowerIndicatorThreshold threshold s =
     (let s1 = s\<lparr>lowPowerIndicatorThreshold := threshold\<rparr>
      in s1\<lparr>lowPowerIndicatorThreshold :=
           (if autoOffEnabled s1
            then word_of_int (max (sint (autoOffThreshold s1) + 1)
                                  (sint (lowPowerIndicatorThreshold s1)))
            else word_of_int (max 5 (sint (lowPowerIndicatorThreshold s1))))\<rparr>)"

definition setLowPowerIndicatorDuration :: "int8 \<Rightarrow> 'v UsermodBattery \<Rightarrow> 'v UsermodBattery" where
  "setLowPowerIndicatorDuration duration s = s\<lparr>lowPowerIndicatorDuration := duration\<rparr>"

subsection \<open>What a pass of \<open>loop\<close> reads from, and does to, the host\<close>

text \<open>
  \<open>millis()\<close> is read at five places of a pass (lines 83, 88, 164, 166, 167) and the
  clock may advance between them, so each place has its own reading. \<open>measured\<close> is the
  value of the local \<open>voltage\<close> after lines 172-187 (the analog read, scaled in
  floating point), \<open>currentPreset\<close> is WLED's global of that name, and the two flags
  are the values of \<open>strip.isUpdating()\<close> and \<open>WLED_MQTT_CONNECTED\<close>.
\<close>

record 'v pass_input =
  strip_isUpdating :: bool
  millis_83 :: ulong
  millis_88 :: ulong
  millis_164 :: ulong
  millis_166 :: ulong
  millis_167 :: ulong
  currentPreset :: byte
  measured :: 'v
  mqtt_connected :: bool

text \<open>
  The calls into WLED, in the order they are made, and the global brightness \<open>bri\<close>
  that \<open>turnOff\<close> writes.
\<close>

datatype 'v host_call = is_ApplyPreset: ApplyPreset byte | StateUpdated | MqttPublish 'v

record 'v host =
  bri :: byte
  calls :: "'v host_call list"

definition applyPreset :: "int8 \<Rightarrow> 'v host \<Rightarrow> 'v host" where
  "applyPreset p h = h\<lparr>calls := calls h @ [ApplyPreset p]\<rparr>"

text \<open>Lines 66-70.\<close>

definition turnOff :: "'v host \<Rightarrow> 'v host" where
  "turnOff h = (let h1 = h\<lparr>bri := 0\<rparr> in h1\<lparr>calls := calls h1 @ [StateUpdated]\<rparr>)"

text \<open>Lines 199-203.\<close>

definition mqtt_publish :: "'v \<Rightarrow> 'v host \<Rightarrow> 'v host" where
  "mqtt_publish v h = h\<lparr>calls := calls h @ [MqttPublish v]\<rparr>"

subsection \<open>The low-power indicator (lines 75-93)\<close>

text \<open>
  Line 88 adds the \<open>int\<close> \<open>lowPowerIndicatorDuration*1000\<close> to an \<open>unsigned long\<close>:
  the product is converted to \<open>unsigned long\<close> and the sum wraps modulo \<open>2 ^ 32\<close>.
\<close>

definition lowPowerIndicator ::
  "'v pass_input \<Rightarrow> 'v UsermodBattery \<Rightarrow> 'v host \<Rightarrow> 'v UsermodBattery \<times> 'v host" where
  "lowPowerIndicator i s h =
     (if \<not> lowPowerIndicatorEnabled s then (s, h)
      else if sint (batteryPin s) < 0 then (s, h)
      else
        let s1 = (if lowPowerIndicationDone s
                     \<and> sint (lowPowerIndicatorReactivationThreshold s) \<le> bat_level s
                  then s\<lparr>lowPowerIndicationDone := False\<rparr> else s)
        in if sint (lowPowerIndicatorThreshold s1) \<le> bat_level s1 then (s1, h)
           else if lowPowerIndicationDone s1 then (s1, h)
           else
             let (s2, h2) =
                   (if lowPowerActivationTime s1 \<le> 1
                    then (s1\<lparr>lowPowerActivationTime := millis_83 i,
                              lastPreset := currentPreset i\<rparr>,
                          applyPreset (lowPowerIndicatorPreset s1) h)
                    else (s1, h))
             in if lowPowerActivationTime s2
                     + word_of_int (sint (lowPowerIndicatorDuration s2) * 1000)
                   \<le> millis_88 i
                then (s2\<lparr>lowPowerIndicationDone := True, lowPowerActivationTime := 0\<rparr>,
                      applyPreset (lastPreset s2) h2)
                else (s2, h2))"

subsection \<open>\<open>loop\<close> (lines 157-205)\<close>

text \<open>
  Modelled from the spec: \<open>Battery::setVoltage\<close> (battery.h), which stores the
  voltage for read-back.
\<close>

definition setVoltage :: "'v \<Rightarrow> 'v UsermodBattery \<Rightarrow> 'v UsermodBattery" where
  "setVoltage v s = s\<lparr>bat_voltage := v\<rparr>"

text \<open>
  Modelled from the spec: \<open>calculateAndSetLevel\<close> of the chemistry classes (lipo.h,
  lion.h, unkown.h), which stores the percentage that the chemistry's curve gives for
  the voltage. The curve is the parameter \<open>calc\<close>.
\<close>

definition calculateAndSetLevel ::
  "('v \<Rightarrow> int) \<Rightarrow> 'v \<Rightarrow> 'v UsermodBattery \<Rightarrow> 'v UsermodBattery" where
  "calculateAndSetLevel calc v s = s\<lparr>bat_level := calc v\<rparr>"

definition loop ::
  "('v \<Rightarrow> int) \<Rightarrow> 'v pass_input \<Rightarrow> 'v UsermodBattery \<Rightarrow> 'v host
     \<Rightarrow> 'v UsermodBattery \<times> 'v host" where
  "loop calc i s h =
     (if strip_isUpdating i then (s, h)
      else
        let (s1, h1) = lowPowerIndicator i s h
        in if millis_164 i < nextReadTime s1 then (s1, h1)
           else
             let s2 = s1\<lparr>nextReadTime := millis_166 i + readingInterval s1\<rparr>;
                 s3 = s2\<lparr>lastReadTime := millis_167 i\<rparr>
             in if sint (batteryPin s3) < 0 then (s3, h1)
                else
                  let s4 = s3\<lparr>initializing := False\<rparr>;
                      voltage = measured i;
                      s5 = setVoltage voltage s4;
                      s6 = calculateAndSetLevel calc voltage s5;
                      h2 = (if autoOffEnabled s6 \<and> sint (autoOffThreshold s6) \<ge> bat_level s6
                            then turnOff h1 else h1);
                      h3 = (if mqtt_connected i then mqtt_publish voltage h2 else h2)
                  in (s6, h3))"

text \<open>A run of passes, one input each.\<close>

fun passes ::
  "('v \<Rightarrow> int) \<Rightarrow> 'v pass_input list \<Rightarrow> 'v UsermodBattery \<Rightarrow> 'v host
     \<Rightarrow> 'v UsermodBattery \<times> 'v host" where
  "passes calc [] s h = (s, h)"
| "passes calc (i # is) s h = (case loop calc i s h of (s', h') \<Rightarrow> passes calc is s' h')"

subsection \<open>\<open>addToJsonInfo\<close>: the "Next update" entry (lines 212-230)\<close>

text \<open>
  Of the info object only the number added to "Next update" is modelled: nothing when
  the pin is invalid (the function returns at line 221 before the entry is made),
  otherwise \<open>(nextReadTime - millis()) / 1000\<close> on \<open>unsigned long\<close>.
\<close>

definition addToJsonInfo_nextUpdate :: "ulong \<Rightarrow> 'v UsermodBattery \<Rightarrow> ulong option" where
  "addToJsonInfo_nextUpdate millis s =
     (if sint (batteryPin s) < 0 then None
      else Some ((nextReadTime s - millis) div 1000))"

subsection \<open>Sequences of threshold setter calls\<close>

datatype setter_call = SetAutoOffThreshold int8 | SetLowPowerIndicatorThreshold int8

fun call_setter :: "setter_call \<Rightarrow> 'v UsermodBattery \<Rightarrow> 'v UsermodBattery" where
  "call_setter (SetAutoOffThreshold t) s = setAutoOffThreshold t s"
| "call_setter (SetLowPowerIndicatorThreshold t) s = setLowPowerIndicatorThreshold t s"

fun call_setters :: "setter_call list \<Rightarrow> 'v UsermodBattery \<Rightarrow> 'v UsermodBattery" where
  "call_setters [] s = s"
| "call_setters (c # cs) s = call_setters cs (call_setter c s)"

subsection \<open>A concrete object\<close>

text \<open>
  An object after \<open>setup\<close> on pin 35, with voltages in millivolts: auto-off at 10 %,
  the indicator (preset 7, 30 seconds) at 20 % and switched on, a reading every 30
  seconds, the last level read 50 %.
\<close>

definition example :: "int UsermodBattery" where
  "example =
     \<lparr>batteryPin = 35, bat_voltage = 3700, bat_level = 50,
      readingInterval = 30000, nextReadTime = 30000, lastReadTime = 0,
      autoOffEnabled = True, autoOffThreshold = 10,
      lowPowerIndicatorEnabled = True, lowPowerIndicatorPreset = 7,
      lowPowerIndicatorThreshold = 20, lowPowerIndicatorReactivationThreshold = 30,
      lowPowerIndicatorDuration = 30, lowPowerIndicationDone = False,
      lowPowerActivationTime = 0, lastPreset = 0,
      initDone = True, initializing = False\<rparr>"

text \<open>A pass at one instant \<open>now\<close>, the strip idle, preset 3 showing, MQTT down.\<close>

definition pass_at :: "ulong \<Rightarrow> int \<Rightarrow> int pass_input" where
  "pass_at now v =
     \<lparr>strip_isUpdating = False, millis_83 = now, millis_88 = now, millis_164 = now,
      millis_166 = now, millis_167 = now, currentPreset = 3, measured = v,
      mqtt_connected = False\<rparr>"

definition host0 :: "int host" where
  "host0 = \<lparr>bri = 128, calls = []\<rparr>"

text \<open>A curve for the examples: a straight line from 3000 mV (0 %) to 4200 mV (100 %), clamped.\<close>

definition linear_curve :: "int \<Rightarrow> int" where
  "linear_curve v = max 0 (min 100 ((v - 3000) div 12))"

text \<open>
  Modelled from the spec: the curve of the null chemistry \<open>Unkown\<close> (unkown.h), which
  gives the level \<open>- 1\<close> whatever the voltage.
\<close>

definition unknown_curve :: "int \<Rightarrow> int" where
  "unknown_curve v = - 1"

subsection \<open>Two predicates on the object\<close>

text \<open>
  The thresholds leave room for the \<open>- 1\<close> and \<open>+ 1\<close> of the two setters, so that
  neither result leaves the range of \<open>int8_t\<close>.
\<close>

definition thresholds_fit :: "'v UsermodBattery \<Rightarrow> bool" where
  "thresholds_fit s \<longleftrightarrow>
     sint (autoOffThreshold s) \<le> 126 \<and> - 127 \<le> sint (lowPowerIndicatorThreshold s)"

text \<open>An indication is done and the cached level is below the reactivation threshold.\<close>

definition latched :: "'v UsermodBattery \<Rightarrow> bool" where
  "latched s \<longleftrightarrow>
     lowPowerIndicationDone s
     \<and> bat_level s < sint (lowPowerIndicatorReactivationThreshold s)"

section \<open>Properties\<close>

subsection \<open>Machine integers\<close>

lemma sint8_of_int: "- 128 \<le> x \<Longrightarrow> x < 128 \<Longrightarrow> sint (word_of_int x :: 8 word) = x"
  by (simp add: sint_sbintrunc' signed_take_bit_int_eq_self)

lemma sint8_bounds: "- 128 \<le> sint (w :: 8 word) \<and> sint w < 128"
  using sint_ge [of w] sint_lt [of w] by simp

lemma sint8_clamp:
  "sint (word_of_int (min 100 (max 0 (sint (t :: 8 word)))) :: 8 word)
     = min 100 (max 0 (sint t))"
  by (rule sint8_of_int) auto

text \<open>Line 82 compares an \<open>unsigned long\<close> with 1.\<close>

lemma ulong_le_one: "(w :: 32 word) \<le> 1 \<longleftrightarrow> w = 0 \<or> w = 1"
proof -
  have "unat w \<le> 1 \<longleftrightarrow> unat w = 0 \<or> unat w = 1"
    by auto
  then show ?thesis
    by (simp add: word_le_nat_alt word_unat_eq_iff)
qed

subsection \<open>Reading interval\<close>

text \<open>
  C8. For every input \<open>x\<close>, \<open>setReadingInterval(x)\<close> leaves \<open>max(x, 3000)\<close> in
  \<open>readingInterval\<close>; for every \<open>x < 3000\<close> that is exactly 3000 milliseconds.
\<close>

theorem setReadingInterval_max:
  "readingInterval (setReadingInterval x s) = max x 3000
   \<and> (x < 3000 \<longrightarrow> readingInterval (setReadingInterval x s) = 3000)
   \<and> 3000 \<le> readingInterval (setReadingInterval x s)"
  by (auto simp add: setReadingInterval_def max_def)

text \<open>C8 at 500 ms: the interval becomes 3000 ms.\<close>

theorem setReadingInterval_max_witness:
  "(500 :: ulong) < 3000 \<and> readingInterval (setReadingInterval 500 example) = 3000"
  using setReadingInterval_max [of 500 example] by simp

subsection \<open>The two threshold setters\<close>

lemma setAutoOffThreshold_value:
  "sint (autoOffThreshold (setAutoOffThreshold t s)) =
     (if lowPowerIndicatorEnabled s
      then sint (word_of_int (min (sint (lowPowerIndicatorThreshold s) - 1)
                                  (min 100 (max 0 (sint t)))) :: 8 word)
      else min 100 (max 0 (sint t)))"
  by (simp add: setAutoOffThreshold_def Let_def sint8_clamp)

lemma setAutoOffThreshold_capped:
  assumes "- 128 < sint (lowPowerIndicatorThreshold s)"
  shows "sint (word_of_int (min (sint (lowPowerIndicatorThreshold s) - 1)
                               (min 100 (max 0 (sint t)))) :: 8 word)
           = min (sint (lowPowerIndicatorThreshold s) - 1) (min 100 (max 0 (sint t)))"
  using assms by (intro sint8_of_int) auto

lemma setAutoOffThreshold_other:
  "lowPowerIndicatorThreshold (setAutoOffThreshold t s) = lowPowerIndicatorThreshold s"
  "lowPowerIndicatorEnabled (setAutoOffThreshold t s) = lowPowerIndicatorEnabled s"
  "autoOffEnabled (setAutoOffThreshold t s) = autoOffEnabled s"
  "lowPowerIndicatorReactivationThreshold (setAutoOffThreshold t s)
     = lowPowerIndicatorReactivationThreshold s"
  by (simp_all add: setAutoOffThreshold_def Let_def)

lemma setLowPowerIndicatorThreshold_other:
  "autoOffThreshold (setLowPowerIndicatorThreshold t s) = autoOffThreshold s"
  "lowPowerIndicatorEnabled (setLowPowerIndicatorThreshold t s) = lowPowerIndicatorEnabled s"
  "autoOffEnabled (setLowPowerIndicatorThreshold t s) = autoOffEnabled s"
  "lowPowerIndicatorReactivationThreshold (setLowPowerIndicatorThreshold t s)
     = lowPowerIndicatorReactivationThreshold s"
  by (simp_all add: setLowPowerIndicatorThreshold_def Let_def)

lemma setLowPowerIndicatorThreshold_value:
  "sint (lowPowerIndicatorThreshold (setLowPowerIndicatorThreshold t s)) =
     (if autoOffEnabled s
      then sint (word_of_int (max (sint (autoOffThreshold s) + 1) (sint t)) :: 8 word)
      else max 5 (sint t))"
proof -
  have "sint (word_of_int (max 5 (sint t)) :: 8 word) = max 5 (sint t)"
    using sint8_bounds [of t] by (intro sint8_of_int) auto
  then show ?thesis
    by (simp add: setLowPowerIndicatorThreshold_def Let_def)
qed

text \<open>
  C4. For every \<open>int8_t\<close> input \<open>t\<close>, \<open>setAutoOffThreshold(t)\<close> clamps \<open>t\<close> into
  0..100, and with the indicator enabled the result is further capped at
  \<open>lowPowerIndicatorThreshold - 1\<close>. The cap is an \<open>int8_t\<close> for every indicator
  threshold above \<open>- 128\<close>, which is every threshold the setters can leave behind
  (\<open>call_setters_fit\<close> below).
\<close>

theorem setAutoOffThreshold_clamps:
  "(\<not> lowPowerIndicatorEnabled s \<longrightarrow>
      sint (autoOffThreshold (setAutoOffThreshold t s)) = min 100 (max 0 (sint t)))
   \<and> (lowPowerIndicatorEnabled s \<and> - 128 < sint (lowPowerIndicatorThreshold s) \<longrightarrow>
        sint (autoOffThreshold (setAutoOffThreshold t s))
          = min (sint (lowPowerIndicatorThreshold s) - 1) (min 100 (max 0 (sint t))))"
  by (simp add: setAutoOffThreshold_value setAutoOffThreshold_capped)

text \<open>
  C4, the scenario: auto-off at 10, the indicator enabled at 15; \<open>setAutoOffThreshold(20)\<close>
  leaves 14.
\<close>

theorem setAutoOffThreshold_clamps_witness:
  "lowPowerIndicatorEnabled (example\<lparr>lowPowerIndicatorThreshold := 15\<rparr>)
   \<and> - 128 < sint (lowPowerIndicatorThreshold (example\<lparr>lowPowerIndicatorThreshold := 15\<rparr>))
   \<and> autoOffThreshold (example\<lparr>lowPowerIndicatorThreshold := 15\<rparr>) = 10
   \<and> sint (autoOffThreshold
        (setAutoOffThreshold 20 (example\<lparr>lowPowerIndicatorThreshold := 15\<rparr>))) = 14"
  using setAutoOffThreshold_clamps [of "example\<lparr>lowPowerIndicatorThreshold := 15\<rparr>" 20]
  by (simp add: example_def)

lemma setAutoOffThreshold_fit:
  assumes "thresholds_fit s"
  shows "thresholds_fit (setAutoOffThreshold t s)"
proof -
  have "- 128 < sint (lowPowerIndicatorThreshold s)"
    using assms by (simp add: thresholds_fit_def)
  then have "sint (autoOffThreshold (setAutoOffThreshold t s)) \<le> 100"
    by (auto simp add: setAutoOffThreshold_value setAutoOffThreshold_capped)
  with assms show ?thesis
    by (simp add: thresholds_fit_def setAutoOffThreshold_other)
qed

lemma setAutoOffThreshold_below:
  assumes "thresholds_fit s" and "lowPowerIndicatorEnabled s"
  shows "sint (autoOffThreshold (setAutoOffThreshold t s))
           < sint (lowPowerIndicatorThreshold (setAutoOffThreshold t s))"
proof -
  have "- 128 < sint (lowPowerIndicatorThreshold s)"
    using assms(1) by (simp add: thresholds_fit_def)
  with assms(2) show ?thesis
    by (simp add: setAutoOffThreshold_value setAutoOffThreshold_capped
        setAutoOffThreshold_other)
qed

lemma setLowPowerIndicatorThreshold_above:
  assumes "sint (autoOffThreshold s) \<le> 126" and "autoOffEnabled s"
  shows "sint (autoOffThreshold s)
           < sint (lowPowerIndicatorThreshold (setLowPowerIndicatorThreshold t s))"
proof -
  have "sint (word_of_int (max (sint (autoOffThreshold s) + 1) (sint t)) :: 8 word)
          = max (sint (autoOffThreshold s) + 1) (sint t)"
    using assms(1) sint8_bounds [of t] sint8_bounds [of "autoOffThreshold s"]
    by (intro sint8_of_int) auto
  with assms(2) show ?thesis
    by (simp add: setLowPowerIndicatorThreshold_value)
qed

lemma setLowPowerIndicatorThreshold_fit:
  assumes "thresholds_fit s"
  shows "thresholds_fit (setLowPowerIndicatorThreshold t s)"
proof (cases "autoOffEnabled s")
  case True
  then show ?thesis
    using assms setLowPowerIndicatorThreshold_above [of s t]
      sint8_bounds [of "autoOffThreshold s"]
    by (simp add: thresholds_fit_def setLowPowerIndicatorThreshold_other)
next
  case False
  then show ?thesis
    using assms
    by (simp add: thresholds_fit_def setLowPowerIndicatorThreshold_other
        setLowPowerIndicatorThreshold_value)
qed

lemma call_setter_fit: "thresholds_fit s \<Longrightarrow> thresholds_fit (call_setter c s)"
  by (cases c) (simp_all add: setAutoOffThreshold_fit setLowPowerIndicatorThreshold_fit)

lemma call_setter_flags:
  "lowPowerIndicatorEnabled (call_setter c s) = lowPowerIndicatorEnabled s"
  "autoOffEnabled (call_setter c s) = autoOffEnabled s"
  by (cases c; simp add: setAutoOffThreshold_other setLowPowerIndicatorThreshold_other)+

lemma call_setters_fit: "thresholds_fit s \<Longrightarrow> thresholds_fit (call_setters cs s)"
  by (induction cs arbitrary: s) (simp_all add: call_setter_fit)

lemma call_setters_flags:
  "lowPowerIndicatorEnabled (call_setters cs s) = lowPowerIndicatorEnabled s"
  "autoOffEnabled (call_setters cs s) = autoOffEnabled s"
  by (induction cs arbitrary: s; simp add: call_setter_flags)+

lemma call_setters_snoc: "call_setters (cs @ [c]) s = call_setter c (call_setters cs s)"
  by (induction cs arbitrary: s) simp_all

text \<open>
  C1, as the code has it. Take any object whose thresholds fit (auto-off at most 126,
  indicator at least \<open>- 127\<close>) and any sequence of calls of the two threshold setters,
  with any arguments. After each call, if the indicator is enabled, and auto-off is
  enabled too or the call was \<open>setAutoOffThreshold\<close>, then
  \<open>autoOffThreshold < lowPowerIndicatorThreshold\<close>.
\<close>

theorem threshold_setters_order:
  assumes "sint (autoOffThreshold s) \<le> 126"
    and "- 127 \<le> sint (lowPowerIndicatorThreshold s)"
    and "lowPowerIndicatorEnabled s"
    and "autoOffEnabled s \<or> (\<exists>t. c = SetAutoOffThreshold t)"
  shows "sint (autoOffThreshold (call_setters (cs @ [c]) s))
           < sint (lowPowerIndicatorThreshold (call_setters (cs @ [c]) s))"
proof -
  let ?s = "call_setters cs s"
  have fit: "thresholds_fit ?s"
    using assms(1,2) by (intro call_setters_fit) (simp add: thresholds_fit_def)
  have lp: "lowPowerIndicatorEnabled ?s"
    using assms(3) by (simp add: call_setters_flags)
  show ?thesis
  proof (cases c)
    case (SetAutoOffThreshold t)
    then show ?thesis
      using setAutoOffThreshold_below [OF fit lp] by (simp add: call_setters_snoc)
  next
    case (SetLowPowerIndicatorThreshold t)
    with assms(4) have "autoOffEnabled ?s"
      by (simp add: call_setters_flags)
    with fit show ?thesis
      using setLowPowerIndicatorThreshold_above [of ?s t] SetLowPowerIndicatorThreshold
      by (simp add: call_setters_snoc thresholds_fit_def setLowPowerIndicatorThreshold_other)
  qed
qed

text \<open>
  C1 on three calls with both features enabled: auto-off ends at 19, the indicator at 20.
\<close>

theorem threshold_setters_order_witness:
  "sint (autoOffThreshold example) \<le> 126
   \<and> - 127 \<le> sint (lowPowerIndicatorThreshold example)
   \<and> lowPowerIndicatorEnabled example \<and> autoOffEnabled example
   \<and> sint (autoOffThreshold (call_setters
        [SetAutoOffThreshold 50, SetLowPowerIndicatorThreshold 5, SetAutoOffThreshold 127]
        example)) = 19
   \<and> sint (lowPowerIndicatorThreshold (call_setters
        [SetAutoOffThreshold 50, SetLowPowerIndicatorThreshold 5, SetAutoOffThreshold 127]
        example)) = 20"
  using threshold_setters_order
    [of example "SetAutoOffThreshold 127"
        "[SetAutoOffThreshold 50, SetLowPowerIndicatorThreshold 5]"]
  by (simp add: example_def setAutoOffThreshold_def setLowPowerIndicatorThreshold_def)

text \<open>
  C1 as stated fails. With the indicator enabled and auto-off disabled (auto-off
  threshold 10), \<open>setLowPowerIndicatorThreshold(5)\<close> stores 5: the setter looks at the
  auto-off threshold only when auto-off is enabled.
\<close>

theorem threshold_setters_order_fails_without_autoOff:
  "lowPowerIndicatorEnabled
     (call_setters [SetLowPowerIndicatorThreshold 5] (example\<lparr>autoOffEnabled := False\<rparr>))
   \<and> sint (autoOffThreshold
        (call_setters [SetLowPowerIndicatorThreshold 5] (example\<lparr>autoOffEnabled := False\<rparr>)))
       = 10
   \<and> sint (lowPowerIndicatorThreshold
        (call_setters [SetLowPowerIndicatorThreshold 5] (example\<lparr>autoOffEnabled := False\<rparr>)))
       = 5"
  by (simp add: example_def setLowPowerIndicatorThreshold_def)

text \<open>
  C5 at a concrete call. The object has the indicator threshold at 20 and the
  reactivation threshold at 30; \<open>setLowPowerIndicatorThreshold(50)\<close> stores 50 and
  leaves the reactivation threshold at 30, not 60.
\<close>

theorem setLowPowerIndicatorThreshold_keeps_reactivation:
  "sint (lowPowerIndicatorThreshold (setLowPowerIndicatorThreshold 50 example)) = 50
   \<and> sint (lowPowerIndicatorReactivationThreshold (setLowPowerIndicatorThreshold 50 example))
       = 30"
  by (simp add: example_def setLowPowerIndicatorThreshold_def)

text \<open>
  C6, as the code has it. Whenever auto-off is disabled, after any call
  \<open>setLowPowerIndicatorThreshold(t)\<close> the stored threshold is \<open>max(t, 5)\<close>, so at
  least 5, whether the indicator is enabled or not.
\<close>

theorem indicator_floor_without_autoOff:
  "\<not> autoOffEnabled s \<Longrightarrow>
     sint (lowPowerIndicatorThreshold (setLowPowerIndicatorThreshold t s)) = max 5 (sint t)
     \<and> 5 \<le> sint (lowPowerIndicatorThreshold (setLowPowerIndicatorThreshold t s))"
  by (simp add: setLowPowerIndicatorThreshold_value)

text \<open>C6 with auto-off disabled and \<open>t = - 3\<close>: the threshold becomes 5.\<close>

theorem indicator_floor_without_autoOff_witness:
  "\<not> autoOffEnabled (example\<lparr>autoOffEnabled := False\<rparr>)
   \<and> sint (lowPowerIndicatorThreshold
        (setLowPowerIndicatorThreshold (- 3) (example\<lparr>autoOffEnabled := False\<rparr>))) = 5"
  using indicator_floor_without_autoOff [of "example\<lparr>autoOffEnabled := False\<rparr>" "- 3"]
  by (simp add: example_def)

text \<open>
  C6 as stated fails. With the indicator disabled and auto-off enabled,
  \<open>setAutoOffThreshold(0)\<close> and then \<open>setLowPowerIndicatorThreshold(0)\<close> leave the
  indicator threshold at 1.
\<close>

theorem indicator_floor_fails_with_autoOff:
  "\<not> lowPowerIndicatorEnabled
       (setLowPowerIndicatorThreshold 0
          (setAutoOffThreshold 0 (example\<lparr>lowPowerIndicatorEnabled := False\<rparr>)))
   \<and> sint (lowPowerIndicatorThreshold
        (setLowPowerIndicatorThreshold 0
           (setAutoOffThreshold 0 (example\<lparr>lowPowerIndicatorEnabled := False\<rparr>)))) = 1"
  by (simp add: example_def setLowPowerIndicatorThreshold_def setAutoOffThreshold_def)

subsection \<open>The indicator\<close>

text \<open>What \<open>lowPowerIndicator\<close> never writes.\<close>

lemma lowPowerIndicator_frame:
  "batteryPin (fst (lowPowerIndicator i s h)) = batteryPin s"
  "bat_voltage (fst (lowPowerIndicator i s h)) = bat_voltage s"
  "bat_level (fst (lowPowerIndicator i s h)) = bat_level s"
  "readingInterval (fst (lowPowerIndicator i s h)) = readingInterval s"
  "nextReadTime (fst (lowPowerIndicator i s h)) = nextReadTime s"
  "lastReadTime (fst (lowPowerIndicator i s h)) = lastReadTime s"
  "autoOffEnabled (fst (lowPowerIndicator i s h)) = autoOffEnabled s"
  "autoOffThreshold (fst (lowPowerIndicator i s h)) = autoOffThreshold s"
  "lowPowerIndicatorReactivationThreshold (fst (lowPowerIndicator i s h))
     = lowPowerIndicatorReactivationThreshold s"
  "initializing (fst (lowPowerIndicator i s h)) = initializing s"
  "bri (snd (lowPowerIndicator i s h)) = bri h"
  by (simp_all add: lowPowerIndicator_def Let_def applyPreset_def split: prod.splits)

lemma lowPowerIndicator_invalid_pin:
  "sint (batteryPin s) < 0 \<Longrightarrow> lowPowerIndicator i s h = (s, h)"
  by (simp add: lowPowerIndicator_def)

lemma lowPowerIndicator_latched:
  "latched s \<Longrightarrow> lowPowerIndicator i s h = (s, h)"
  by (simp add: lowPowerIndicator_def latched_def)

text \<open>
  An indication that is running (activation time above 1, not done) is left alone as
  long as the clock read on line 88 is before the expiry.
\<close>

lemma lowPowerIndicator_waits:
  assumes "\<not> lowPowerIndicationDone s" and "1 < lowPowerActivationTime s"
    and "millis_88 i < lowPowerActivationTime s
           + word_of_int (sint (lowPowerIndicatorDuration s) * 1000)"
  shows "lowPowerIndicator i s h = (s, h)"
  using assms by (simp add: lowPowerIndicator_def Let_def not_le)

text \<open>At the expiry the previous preset comes back, provided the level is still low.\<close>

lemma lowPowerIndicator_restores:
  assumes "lowPowerIndicatorEnabled s" and "0 \<le> sint (batteryPin s)"
    and "\<not> lowPowerIndicationDone s" and "1 < lowPowerActivationTime s"
    and "bat_level s < sint (lowPowerIndicatorThreshold s)"
    and "lowPowerActivationTime s
           + word_of_int (sint (lowPowerIndicatorDuration s) * 1000) \<le> millis_88 i"
  shows "lowPowerIndicator i s h =
           (s\<lparr>lowPowerIndicationDone := True, lowPowerActivationTime := 0\<rparr>,
            applyPreset (lastPreset s) h)"
  using assms by (simp add: lowPowerIndicator_def Let_def not_le not_less)

text \<open>
  With the level back at or above the threshold, line 80 returns before the expiry is
  looked at, whatever the clock says.
\<close>

lemma lowPowerIndicator_recovered:
  assumes "sint (lowPowerIndicatorThreshold s) \<le> bat_level s"
    and "\<not> lowPowerIndicationDone s"
  shows "lowPowerIndicator i s h = (s, h)"
  using assms by (simp add: lowPowerIndicator_def Let_def)

text \<open>An idle indicator with a level strictly below the threshold activates.\<close>

lemma lowPowerIndicator_activates:
  assumes "lowPowerIndicatorEnabled s" and "0 \<le> sint (batteryPin s)"
    and "\<not> lowPowerIndicationDone s" and "lowPowerActivationTime s \<le> 1"
    and "bat_level s < sint (lowPowerIndicatorThreshold s)"
    and "\<not> millis_83 i + word_of_int (sint (lowPowerIndicatorDuration s) * 1000) \<le> millis_88 i"
  shows "lowPowerIndicator i s h =
           (s\<lparr>lowPowerActivationTime := millis_83 i, lastPreset := currentPreset i\<rparr>,
            applyPreset (lowPowerIndicatorPreset s) h)"
  using assms by (simp add: lowPowerIndicator_def Let_def not_le not_less)

subsection \<open>One pass of \<open>loop\<close>\<close>

lemma loop_not_updating:
  "\<not> strip_isUpdating i \<Longrightarrow>
   loop calc i s h =
     (let s1 = fst (lowPowerIndicator i s h); h1 = snd (lowPowerIndicator i s h)
      in if millis_164 i < nextReadTime s then (s1, h1)
         else if sint (batteryPin s) < 0
           then (s\<lparr>nextReadTime := millis_166 i + readingInterval s,
                    lastReadTime := millis_167 i\<rparr>, h)
           else (s1\<lparr>nextReadTime := millis_166 i + readingInterval s,
                    lastReadTime := millis_167 i, initializing := False,
                    bat_voltage := measured i, bat_level := calc (measured i)\<rparr>,
                 (let h2 = (if autoOffEnabled s \<and> calc (measured i) \<le> sint (autoOffThreshold s)
                            then turnOff h1 else h1)
                  in if mqtt_connected i then mqtt_publish (measured i) h2 else h2)))"
  by (cases "lowPowerIndicator i s h")
     (use lowPowerIndicator_frame [of i s h] lowPowerIndicator_invalid_pin [of s i h] in
       \<open>auto simp add: loop_def Let_def setVoltage_def calculateAndSetLevel_def\<close>)

lemma loop_latched:
  assumes "latched s"
    and "calc (measured i) < sint (lowPowerIndicatorReactivationThreshold s)"
  shows "latched (fst (loop calc i s h))"
    and "lowPowerIndicatorReactivationThreshold (fst (loop calc i s h))
           = lowPowerIndicatorReactivationThreshold s"
    and "lowPowerActivationTime (fst (loop calc i s h)) = lowPowerActivationTime s"
    and "lastPreset (fst (loop calc i s h)) = lastPreset s"
    and "filter is_ApplyPreset (calls (snd (loop calc i s h)))
           = filter is_ApplyPreset (calls h)"
proof -
  have ind: "lowPowerIndicator i s h = (s, h)"
    using assms(1) by (rule lowPowerIndicator_latched)
  show "latched (fst (loop calc i s h))"
    "lowPowerIndicatorReactivationThreshold (fst (loop calc i s h))
       = lowPowerIndicatorReactivationThreshold s"
    "lowPowerActivationTime (fst (loop calc i s h)) = lowPowerActivationTime s"
    "lastPreset (fst (loop calc i s h)) = lastPreset s"
    "filter is_ApplyPreset (calls (snd (loop calc i s h))) = filter is_ApplyPreset (calls h)"
    using assms
    by (cases "strip_isUpdating i";
        simp add: loop_not_updating ind Let_def latched_def turnOff_def mqtt_publish_def;
        simp add: loop_def)+
qed

lemma passes_latched:
  assumes "latched s"
    and "\<forall>i \<in> set is. calc (measured i) < sint (lowPowerIndicatorReactivationThreshold s)"
  shows "latched (fst (passes calc is s h))
     \<and> lowPowerActivationTime (fst (passes calc is s h)) = lowPowerActivationTime s
     \<and> lastPreset (fst (passes calc is s h)) = lastPreset s
     \<and> filter is_ApplyPreset (calls (snd (passes calc is s h)))
         = filter is_ApplyPreset (calls h)"
  using assms
proof (induction "is" arbitrary: s h)
  case Nil
  then show ?case by simp
next
  case (Cons i "is")
  obtain s' h' where step: "loop calc i s h = (s', h')"
    by (cases "loop calc i s h")
  have m: "calc (measured i) < sint (lowPowerIndicatorReactivationThreshold s)"
    using Cons.prems(2) by simp
  note l = loop_latched [of s calc i h, OF Cons.prems(1) m, unfolded step fst_conv snd_conv]
  have "\<forall>i \<in> set is. calc (measured i) < sint (lowPowerIndicatorReactivationThreshold s')"
    using Cons.prems(2) l(2) by simp
  from Cons.IH [OF l(1) this, of h'] show ?case
    using l by (simp add: step)
qed

text \<open>
  C2 on a concrete run, with the indicator at 20 % for 30 seconds, preset 7, and
  preset 3 showing. The pass at 1000 ms finds the cached level 15, activates the
  indicator (activation time 1000, saved preset 3, preset 7 applied) and then samples
  3600 mV, which is 50 %. The passes at 31000 ms and 61000 ms, the first ones at or
  after 1000 + 30 * 1000, apply no preset: preset 3 is not restored, the activation time
  is still 1000 and the done flag is still clear.
\<close>

theorem indicator_not_restored_after_recovery:
  "passes linear_curve [pass_at 1000 3600] (example\<lparr>nextReadTime := 1000, bat_level := 15\<rparr>)
       host0
     = (example\<lparr>bat_level := 50, bat_voltage := 3600, nextReadTime := 31000,
                lastReadTime := 1000, lowPowerActivationTime := 1000, lastPreset := 3\<rparr>,
        host0\<lparr>calls := [ApplyPreset 7]\<rparr>)
   \<and> passes linear_curve [pass_at 1000 3600, pass_at 31000 3600, pass_at 61000 3600]
        (example\<lparr>nextReadTime := 1000, bat_level := 15\<rparr>) host0
     = (example\<lparr>bat_level := 50, bat_voltage := 3600, nextReadTime := 91000,
                lastReadTime := 61000, lowPowerActivationTime := 1000, lastPreset := 3\<rparr>,
        host0\<lparr>calls := [ApplyPreset 7]\<rparr>)"
  by (simp add: loop_def lowPowerIndicator_def example_def pass_at_def host0_def
      linear_curve_def applyPreset_def turnOff_def mqtt_publish_def setVoltage_def
      calculateAndSetLevel_def Let_def)

text \<open>
  With the cached level at or above \<open>lowPowerIndicatorThreshold\<close> (equal included) a
  call of \<open>lowPowerIndicator\<close> applies no preset and writes neither the activation
  time nor the saved preset: there is no activation.
\<close>

lemma lowPowerIndicator_no_activation:
  assumes "sint (lowPowerIndicatorThreshold s) \<le> bat_level s"
  shows "snd (lowPowerIndicator i s h) = h"
    and "lowPowerActivationTime (fst (lowPowerIndicator i s h)) = lowPowerActivationTime s"
    and "lastPreset (fst (lowPowerIndicator i s h)) = lastPreset s"
  using assms by (simp_all add: lowPowerIndicator_def Let_def)

text \<open>
  While \<open>lowPowerIndicatorReactivationThreshold\<close> is \<open>lowPowerIndicatorThreshold + 10\<close>
  on integers, which asks for a threshold of at most 117: once an indication is done,
  over any run of passes of \<open>loop\<close> in which the cached level and every level sampled
  stay below \<open>lowPowerIndicatorThreshold + 10\<close>, the done flag stays set and no
  preset is applied.
\<close>

lemma indicator_stays_done_below_threshold_plus_10:
  assumes "sint (lowPowerIndicatorReactivationThreshold s)
             = sint (lowPowerIndicatorThreshold s) + 10"
    and "lowPowerIndicationDone s"
    and "bat_level s < sint (lowPowerIndicatorThreshold s) + 10"
    and "\<forall>j \<in> set js. calc (measured j) < sint (lowPowerIndicatorThreshold s) + 10"
  shows "lowPowerIndicationDone (fst (passes calc js s h))
      \<and> lowPowerActivationTime (fst (passes calc js s h)) = lowPowerActivationTime s
      \<and> lastPreset (fst (passes calc js s h)) = lastPreset s
      \<and> filter is_ApplyPreset (calls (snd (passes calc js s h)))
          = filter is_ApplyPreset (calls h)"
proof -
  have "latched s"
    and "\<forall>j \<in> set js. calc (measured j) < sint (lowPowerIndicatorReactivationThreshold s)"
    using assms by (simp_all add: latched_def)
  from passes_latched [OF this, of h] show ?thesis
    by (simp add: latched_def)
qed

text \<open>
  C3 on a concrete run, with the indicator threshold at 120. The setter stores 120 as
  it is (line 613, no upper bound), and the sum of line 417, 120 + 10, does not fit the
  \<open>int8_t\<close> field: it is read back as \<open>- 126\<close>. From an object with these two
  values, the level at 50 % throughout, preset 7 for 30 seconds and preset 3 showing:
  the pass at 1000 ms activates the indicator, the pass at 31000 ms ends the indication
  (preset 3 restored, done flag set), and the pass at 31001 ms, at a level of 50, far
  below 120 + 10, clears the done flag and activates again.
\<close>

theorem indicator_reactivates_below_threshold_plus_10:
  "setLowPowerIndicatorThreshold 120 example = example\<lparr>lowPowerIndicatorThreshold := 120\<rparr>
   \<and> sint (word_of_int
        (sint (lowPowerIndicatorThreshold (setLowPowerIndicatorThreshold 120 example)) + 10)
          :: int8) = - 126
   \<and> passes linear_curve [pass_at 1000 3600, pass_at 31000 3600]
        (example\<lparr>lowPowerIndicatorThreshold := 120,
                  lowPowerIndicatorReactivationThreshold := - 126\<rparr>) host0
     = (example\<lparr>lowPowerIndicatorThreshold := 120,
                 lowPowerIndicatorReactivationThreshold := - 126,
                 bat_voltage := 3600, nextReadTime := 61000, lastReadTime := 31000,
                 lowPowerIndicationDone := True, lowPowerActivationTime := 0,
                 lastPreset := 3\<rparr>,
        host0\<lparr>calls := [ApplyPreset 7, ApplyPreset 3]\<rparr>)
   \<and> passes linear_curve [pass_at 1000 3600, pass_at 31000 3600, pass_at 31001 3600]
        (example\<lparr>lowPowerIndicatorThreshold := 120,
                  lowPowerIndicatorReactivationThreshold := - 126\<rparr>) host0
     = (example\<lparr>lowPowerIndicatorThreshold := 120,
                 lowPowerIndicatorReactivationThreshold := - 126,
                 bat_voltage := 3600, nextReadTime := 61000, lastReadTime := 31000,
                 lowPowerIndicationDone := False, lowPowerActivationTime := 31001,
                 lastPreset := 3\<rparr>,
        host0\<lparr>calls := [ApplyPreset 7, ApplyPreset 3, ApplyPreset 7]\<rparr>)"
  by (simp add: loop_def lowPowerIndicator_def example_def pass_at_def host0_def
      linear_curve_def applyPreset_def turnOff_def mqtt_publish_def setVoltage_def
      calculateAndSetLevel_def setLowPowerIndicatorThreshold_def Let_def ulong_le_one)

subsection \<open>The sampling schedule and auto-off\<close>

text \<open>
  C7, as the code has it. In every pass of \<open>loop\<close> in which the strip is not updating:
  the indicator runs first, on the level cached before the pass; if the clock read on
  line 164 is before \<open>nextReadTime\<close> the pass is the indicator's work and nothing else
  (schedule, voltage, level, \<open>initializing\<close> and brightness are as before); when
  sampling is due, \<open>nextReadTime\<close> becomes the clock read on line 166 plus
  \<open>readingInterval\<close>, with a valid pin and with an invalid one; with an invalid pin
  that and \<open>lastReadTime\<close> are the only writes of the pass; with a valid pin
  \<open>initializing\<close> is cleared, voltage and level are stored, and the calls of the
  indicator come before those of auto-off and MQTT.
\<close>

theorem loop_schedule:
  assumes "\<not> strip_isUpdating i"
  shows "(millis_164 i < nextReadTime s \<longrightarrow>
            loop calc i s h = lowPowerIndicator i s h
            \<and> nextReadTime (fst (loop calc i s h)) = nextReadTime s
            \<and> lastReadTime (fst (loop calc i s h)) = lastReadTime s
            \<and> bat_voltage (fst (loop calc i s h)) = bat_voltage s
            \<and> bat_level (fst (loop calc i s h)) = bat_level s
            \<and> initializing (fst (loop calc i s h)) = initializing s
            \<and> bri (snd (loop calc i s h)) = bri h)
   \<and> (\<not> millis_164 i < nextReadTime s \<and> sint (batteryPin s) < 0 \<longrightarrow>
        loop calc i s h = (s\<lparr>nextReadTime := millis_166 i + readingInterval s,
                              lastReadTime := millis_167 i\<rparr>, h))
   \<and> (\<not> millis_164 i < nextReadTime s \<and> 0 \<le> sint (batteryPin s) \<longrightarrow>
        fst (loop calc i s h) =
          (fst (lowPowerIndicator i s h))
            \<lparr>nextReadTime := millis_166 i + readingInterval s, lastReadTime := millis_167 i,
             initializing := False, bat_voltage := measured i, bat_level := calc (measured i)\<rparr>
        \<and> calls (snd (loop calc i s h)) =
            calls (snd (lowPowerIndicator i s h))
            @ (if autoOffEnabled s \<and> calc (measured i) \<le> sint (autoOffThreshold s)
               then [StateUpdated] else [])
            @ (if mqtt_connected i then [MqttPublish (measured i)] else []))"
  using assms lowPowerIndicator_frame [of i s h]
  by (auto simp add: loop_not_updating Let_def turnOff_def mqtt_publish_def)

text \<open>
  C7 with an invalid pin and a sample due at 30000 ms: the schedule moves to 60000 ms,
  \<open>initializing\<close> stays set, voltage and level are untouched.
\<close>

theorem loop_schedule_witness:
  "\<not> strip_isUpdating (pass_at 30000 3700)
   \<and> \<not> millis_164 (pass_at 30000 3700)
         < nextReadTime (example\<lparr>batteryPin := - 1, initializing := True\<rparr>)
   \<and> sint (batteryPin (example\<lparr>batteryPin := - 1, initializing := True\<rparr>)) < 0
   \<and> loop unknown_curve (pass_at 30000 3700)
        (example\<lparr>batteryPin := - 1, initializing := True\<rparr>) host0
       = (example\<lparr>batteryPin := - 1, initializing := True, nextReadTime := 60000,
                  lastReadTime := 30000\<rparr>, host0)"
  using loop_schedule
    [of "pass_at 30000 3700" "example\<lparr>batteryPin := - 1, initializing := True\<rparr>"
        unknown_curve host0]
  by (simp add: example_def pass_at_def)

text \<open>
  C7 as stated fails. While the strip is updating, line 159 returns at once: at
  30000 ms a sample is due (\<open>nextReadTime\<close> is 30000), yet \<open>nextReadTime\<close> is not
  moved to 60000.
\<close>

theorem loop_skipped_while_strip_updates:
  "\<not> millis_164 (pass_at 30000 3700\<lparr>strip_isUpdating := True\<rparr>) < nextReadTime example
   \<and> millis_166 (pass_at 30000 3700\<lparr>strip_isUpdating := True\<rparr>) + readingInterval example
       = 60000
   \<and> nextReadTime
        (fst (loop unknown_curve (pass_at 30000 3700\<lparr>strip_isUpdating := True\<rparr>) example host0))
       = 30000"
  by (simp add: loop_def example_def pass_at_def)

text \<open>
  C9. In every pass that takes a sample (strip not updating, sampling due, pin valid)
  with auto-off enabled: if the level computed from the sample is \<open>- 1\<close> and
  \<open>autoOffThreshold\<close> is at least \<open>- 1\<close>, then \<open>turnOff\<close> runs: the brightness is 0
  after the pass and \<open>stateUpdated\<close> has been called.
\<close>

theorem autoOff_fires_on_invalid_level:
  assumes "\<not> strip_isUpdating i" and "\<not> millis_164 i < nextReadTime s"
    and "0 \<le> sint (batteryPin s)" and "autoOffEnabled s"
    and "calc (measured i) = - 1" and "- 1 \<le> sint (autoOffThreshold s)"
  shows "bri (snd (loop calc i s h)) = 0
     \<and> StateUpdated \<in> set (calls (snd (loop calc i s h)))
     \<and> bat_level (fst (loop calc i s h)) = - 1"
  using assms by (simp add: loop_not_updating Let_def turnOff_def mqtt_publish_def)

text \<open>
  C9 with the null chemistry and auto-off at 10: the brightness goes from 128 to 0.
\<close>

theorem autoOff_fires_on_invalid_level_witness:
  "\<not> strip_isUpdating (pass_at 30000 3700)
   \<and> \<not> millis_164 (pass_at 30000 3700) < nextReadTime example
   \<and> 0 \<le> sint (batteryPin example) \<and> autoOffEnabled example
   \<and> unknown_curve (measured (pass_at 30000 3700)) = - 1
   \<and> - 1 \<le> sint (autoOffThreshold example)
   \<and> bri host0 = 128
   \<and> bri (snd (loop unknown_curve (pass_at 30000 3700) example host0)) = 0"
  using autoOff_fires_on_invalid_level [of "pass_at 30000 3700" example unknown_curve host0]
  by (simp add: example_def pass_at_def unknown_curve_def host0_def)

subsection \<open>Seconds until the next sample\<close>

text \<open>
  C10, as the code has it. The number reported under "Next update" is
  \<open>(nextReadTime - millis()) / 1000\<close> on 32-bit unsigned values. Whenever
  \<open>millis() > nextReadTime\<close> the subtraction wraps: the number is
  \<open>(2 ^ 32 - (millis() - nextReadTime)) / 1000\<close>, which is at least 2147483 whenever
  the two are at most \<open>2 ^ 31\<close> ms apart.
\<close>

theorem nextUpdate_wraps:
  assumes "0 \<le> sint (batteryPin s)" and "nextReadTime s < millis"
  shows "addToJsonInfo_nextUpdate millis s = Some ((nextReadTime s - millis) div 1000)
    \<and> unat ((nextReadTime s - millis) div 1000)
        = (2 ^ 32 - (unat millis - unat (nextReadTime s))) div 1000
    \<and> (unat millis - unat (nextReadTime s) \<le> 2 ^ 31 \<longrightarrow>
         2147483 \<le> unat ((nextReadTime s - millis) div 1000))"
proof -
  have lt: "unat (nextReadTime s) < unat millis"
    using assms(2) by (simp add: word_less_nat_alt)
  have b: "unat millis < 2 ^ 32"
    using unsigned_less [of millis, where 'a = nat] by simp
  have sub: "unat (nextReadTime s - millis) = 2 ^ 32 - (unat millis - unat (nextReadTime s))"
    using lt b by (simp add: unat_sub_if_size word_size)
  have d: "unat ((nextReadTime s - millis) div 1000) = unat (nextReadTime s - millis) div 1000"
    by (simp add: unat_div)
  show ?thesis
    using assms(1) sub d by (auto simp add: addToJsonInfo_nextUpdate_def)
qed

text \<open>C10 a quarter of a second late: 4294967 seconds are reported.\<close>

theorem nextUpdate_wraps_witness:
  "0 \<le> sint (batteryPin (example\<lparr>nextReadTime := 30000\<rparr>))
   \<and> nextReadTime (example\<lparr>nextReadTime := 30000\<rparr>) < 30250
   \<and> unat (30250 :: ulong) - unat (nextReadTime (example\<lparr>nextReadTime := 30000\<rparr>)) \<le> 2 ^ 31
   \<and> addToJsonInfo_nextUpdate 30250 (example\<lparr>nextReadTime := 30000\<rparr>) = Some 4294967"
  using nextUpdate_wraps [of "example\<lparr>nextReadTime := 30000\<rparr>" 30250]
  by (simp add: example_def)

text \<open>
  C10 as stated fails. A pass at 4294939296 ms, 28 seconds before the clock wraps, sets
  \<open>nextReadTime\<close> to 4294939296 + 30000, which is 2000 modulo \<open>2 ^ 32\<close>. One second
  before the wrap, \<open>millis()\<close> is 4294966296 and greater than \<open>nextReadTime\<close>; the
  number reported is 3.
\<close>

theorem nextUpdate_small_after_clock_wrap:
  "nextReadTime (fst (loop linear_curve (pass_at 4294939296 3700)
       (example\<lparr>nextReadTime := 4294939296\<rparr>) host0)) = 2000
   \<and> (2000 :: ulong) < 4294966296
   \<and> addToJsonInfo_nextUpdate 4294966296
       (fst (loop linear_curve (pass_at 4294939296 3700)
          (example\<lparr>nextReadTime := 4294939296\<rparr>) host0))
     = Some 3"
  by (simp add: loop_def lowPowerIndicator_def example_def pass_at_def host0_def
      linear_curve_def applyPreset_def turnOff_def mqtt_publish_def setVoltage_def
      calculateAndSetLevel_def Let_def addToJsonInfo_nextUpdate_def)

end
